theory Spec2Isabelle
  imports Complex_Main
begin

section \<open>Batch gradient descent for a linear least-squares fit\<close>

text \<open>
  The program is the code cell of \<^verbatim>\<open>gradient_descent/gradient_descent.ipynb\<close>:
  \<^verbatim>\<open>
  N = 100                     # number of data points
  n_iterations = 1000         # number of iterations
  x = 2*np.random.rand(N,1)
  eta = np.random.rand(N,1)
  y = 4 + 3*x + eta
  Xb = np.c_[np.ones((100,1)), x]
  theta_ev = np.ones((2,n_iterations))

  gamma = 0.1                     # step size
  np.random.seed(0)
  theta = np.random.randn(2,1)    # parameter vector randomly initialized

  for iteration in range(n_iterations):
      # evolution of the parameter vector
      theta_ev.itemset((0,iteration), theta[0])
      theta_ev.itemset((1,iteration), theta[1])
      # calculates the gradient at each iteration
      gradients = 2/N * Xb.T.dot(Xb.dot(theta) - y)
      # updates theta
      theta = theta - gamma*gradients
  \<close>
  The data (\<open>Xb\<close>, \<open>y\<close>), the initial guess \<open>theta\<close>, the step size \<open>gamma\<close> and
  the iteration count are the inputs of the optimisation; the final \<open>theta\<close> and the
  array \<open>theta_ev\<close> are its outputs. The plotting that follows the loop only reads them.

  Numbers: a float64 is modelled as a \<^typ>\<open>real\<close>. The arithmetic is exact: rounding,
  overflow to infinity and NaN are outside the model.
\<close>

subsection \<open>Arrays and the numpy operations of the cell\<close>

text \<open>
  An array of shape \<open>(n, 1)\<close> (\<open>theta\<close>, \<open>y\<close>, \<open>gradients\<close>) is the list of its \<open>n\<close>
  entries. An array of shape \<open>(n, m)\<close> (\<open>Xb\<close>, \<open>theta_ev\<close>) is the list of its \<open>n\<close> rows,
  each a list of \<open>m\<close> entries. The empty list of rows stands for the shape \<open>(0, 0)\<close>; a
  shape \<open>(0, m)\<close> with \<open>m > 0\<close> has no representative.
\<close>

type_synonym vec = "real list"
type_synonym matrix = "real list list"

text \<open>The three messages of numpy's \<^verbatim>\<open>ValueError\<close> that the cell can meet.\<close>

datatype value_error =
    NegativeDimensions    \<comment> \<open>negative dimensions are not allowed\<close>
  | ShapesNotAligned      \<comment> \<open>shapes (n,m) and (k,1) not aligned\<close>
  | CannotBroadcast       \<comment> \<open>operands could not be broadcast together\<close>

datatype error = IndexError | ZeroDivisionError | ValueError value_error

definition and_then :: "error + 'a \<Rightarrow> ('a \<Rightarrow> error + 'b) \<Rightarrow> error + 'b" where
  "and_then r k = (case r of Inl err \<Rightarrow> Inl err | Inr v \<Rightarrow> k v)"

definition ncols :: "matrix \<Rightarrow> nat" where
  "ncols M = (case M of [] \<Rightarrow> 0 | row # _ \<Rightarrow> length row)"

text \<open>\<^verbatim>\<open>np.ones((r, c))\<close>: an \<open>r\<close> by \<open>c\<close> array of ones; a negative dimension raises.\<close>

definition np_ones :: "nat \<Rightarrow> int \<Rightarrow> error + matrix" where
  "np_ones r c =
     (if c < 0 then Inl (ValueError NegativeDimensions)
      else Inr (replicate r (replicate (nat c) 1)))"

text \<open>\<^verbatim>\<open>v[i]\<close> on an \<open>(n, 1)\<close> array, for an index \<open>i \<ge> 0\<close>.\<close>

definition getitem :: "vec \<Rightarrow> nat \<Rightarrow> error + real" where
  "getitem v i = (if i < length v then Inr (v ! i) else Inl IndexError)"

text \<open>\<^verbatim>\<open>M.itemset((r, c), v)\<close>: writes one entry in place; the model returns the new array.\<close>

definition itemset :: "matrix \<Rightarrow> nat \<times> nat \<Rightarrow> real \<Rightarrow> error + matrix" where
  "itemset M rc v =
     (case rc of (r, c) \<Rightarrow>
        if r < length M \<and> c < length (M ! r) then Inr (M[r := (M ! r)[c := v]])
        else Inl IndexError)"

text \<open>\<^verbatim>\<open>M.T\<close>: row \<open>j\<close> of the transpose is column \<open>j\<close> of \<open>M\<close>.\<close>

definition np_T :: "matrix \<Rightarrow> matrix" where
  "np_T M = map (\<lambda>j. map (\<lambda>row. row ! j) M) [0..<ncols M]"

text \<open>\<^verbatim>\<open>M.dot(v)\<close> for \<open>M\<close> of shape \<open>(n, m)\<close> and \<open>v\<close> of shape \<open>(k, 1)\<close>: raises unless \<open>m = k\<close>.\<close>

definition dot :: "matrix \<Rightarrow> vec \<Rightarrow> error + vec" where
  "dot M v =
     (if ncols M = length v then Inr (map (\<lambda>row. sum_list (map2 (*) row v)) M)
      else Inl (ValueError ShapesNotAligned))"

text \<open>
  \<^verbatim>\<open>u - v\<close> for \<open>u\<close> of shape \<open>(n, 1)\<close> and \<open>v\<close> of shape \<open>(k, 1)\<close>. numpy broadcasts: equal
  lengths subtract entry by entry, a single entry on one side is subtracted from (or
  has subtracted from it) every entry of the other, anything else raises.
\<close>

definition np_sub :: "vec \<Rightarrow> vec \<Rightarrow> error + vec" where
  "np_sub u v =
     (if length u = length v then Inr (map2 (-) u v)
      else if length v = 1 then Inr (map (\<lambda>a. a - v ! 0) u)
      else if length u = 1 then Inr (map (\<lambda>b. u ! 0 - b) v)
      else Inl (ValueError CannotBroadcast))"

text \<open>\<^verbatim>\<open>c * v\<close> for a scalar \<open>c\<close>.\<close>

definition np_smul :: "real \<Rightarrow> vec \<Rightarrow> vec" where
  "np_smul c v = map (\<lambda>a. c * a) v"

text \<open>\<^verbatim>\<open>a / n\<close> for a Python int \<open>n\<close>: true division, raising on zero.\<close>

definition true_div :: "real \<Rightarrow> int \<Rightarrow> error + real" where
  "true_div a n = (if n = 0 then Inl ZeroDivisionError else Inr (a / real_of_int n))"

text \<open>\<^verbatim>\<open>range(n)\<close>: empty when \<open>n \<le> 0\<close>.\<close>

definition py_range :: "int \<Rightarrow> nat list" where
  "py_range n = [0..<nat n]"

subsection \<open>The variables of the cell and its statements\<close>

record env =
  N :: int
  n_iterations :: int
  Xb :: matrix
  y :: vec
  theta_ev :: matrix
  gamma :: real
  theta :: vec

text \<open>
  A statement either completes with the new variables or raises; the exception is paired
  with the variables as they are when it is raised, since what earlier statements wrote
  stays written.
\<close>

type_synonym outcome = "(error \<times> env) + env"

definition exec :: "(env \<Rightarrow> error + env) \<Rightarrow> env \<Rightarrow> outcome" where
  "exec stmt e = (case stmt e of Inl err \<Rightarrow> Inl (err, e) | Inr e' \<Rightarrow> Inr e')"

text \<open>\<^verbatim>\<open>theta_ev.itemset((row, iteration), theta[row])\<close>, for \<open>row\<close> 0 and 1.\<close>

definition record_theta :: "nat \<Rightarrow> nat \<Rightarrow> env \<Rightarrow> error + env" where
  "record_theta row iteration e =
     and_then (getitem (theta e) row) (\<lambda>v.
     and_then (itemset (theta_ev e) (row, iteration) v) (\<lambda>ev.
     Inr (e\<lparr>theta_ev := ev\<rparr>)))"

text \<open>
  \<^verbatim>\<open>2/N * Xb.T.dot(Xb.dot(theta) - y)\<close>. Python evaluates the left operand \<open>2/N\<close> first,
  then the inner product, the subtraction and the outer product.
\<close>

definition gradients :: "env \<Rightarrow> error + vec" where
  "gradients e =
     and_then (true_div 2 (N e)) (\<lambda>c.
     and_then (dot (Xb e) (theta e)) (\<lambda>p.
     and_then (np_sub p (y e)) (\<lambda>r.
     and_then (dot (np_T (Xb e)) r) (\<lambda>g.
     Inr (np_smul c g)))))"

text \<open>
  \<^verbatim>\<open>gradients = ...; theta = theta - gamma*gradients\<close>: \<open>theta\<close> is rebound to a new
  array. \<open>gradients\<close> is written by the loop only and read in the next line only, so it
  is a local value here.
\<close>

definition update_theta :: "env \<Rightarrow> error + env" where
  "update_theta e =
     and_then (gradients e) (\<lambda>g.
     and_then (np_sub (theta e) (np_smul (gamma e) g)) (\<lambda>t.
     Inr (e\<lparr>theta := t\<rparr>)))"

definition loop_body :: "nat \<Rightarrow> env \<Rightarrow> outcome" where
  "loop_body iteration e =
     (case exec (record_theta 0 iteration) e of
        Inl x \<Rightarrow> Inl x
      | Inr e1 \<Rightarrow>
          (case exec (record_theta 1 iteration) e1 of
             Inl x \<Rightarrow> Inl x
           | Inr e2 \<Rightarrow> exec update_theta e2))"

fun for_loop :: "nat list \<Rightarrow> env \<Rightarrow> outcome" where
  "for_loop [] e = Inr e"
| "for_loop (iteration # rest) e =
     (case loop_body iteration e of Inl x \<Rightarrow> Inl x | Inr e' \<Rightarrow> for_loop rest e')"

definition gradient_descent :: "env \<Rightarrow> outcome" where
  "gradient_descent e = for_loop (py_range (n_iterations e)) e"

subsection \<open>The optimiser as one operation\<close>

text \<open>
  \<open>run\<close> is the cell with its data taken as arguments: \<open>N\<close> is the number of data points,
  which is the number of rows of \<open>Xb\<close>; \<open>theta_ev\<close> is allocated before the loop as the cell
  does; the result is the final \<open>theta\<close> and \<open>theta_ev\<close>, or the exception raised.
\<close>

definition initial_env :: "matrix \<Rightarrow> vec \<Rightarrow> vec \<Rightarrow> real \<Rightarrow> int \<Rightarrow> matrix \<Rightarrow> env" where
  "initial_env X Y theta0 g n ev =
     \<lparr>N = int (length X), n_iterations = n, Xb = X, y = Y, theta_ev = ev,
      gamma = g, theta = theta0\<rparr>"

definition run :: "matrix \<Rightarrow> vec \<Rightarrow> vec \<Rightarrow> real \<Rightarrow> int \<Rightarrow> error + (vec \<times> matrix)" where
  "run X Y theta0 g n =
     and_then (np_ones 2 n) (\<lambda>ev.
       case gradient_descent (initial_env X Y theta0 g n ev) of
         Inl (err, _) \<Rightarrow> Inl err
       | Inr e \<Rightarrow> Inr (theta e, theta_ev e))"

text \<open>
  The cell reads \<open>theta_ev\<close> by columns: \<^verbatim>\<open>theta_ev[0:2,0]\<close> is printed as the initial
  guess, and row \<open>r\<close> is plotted against the iteration number. The trajectory is the list
  of the columns; its entry \<open>k\<close> is the snapshot of iteration \<open>k\<close>.
\<close>

definition trajectory :: "matrix \<Rightarrow> vec list" where
  "trajectory ev = np_T ev"

text \<open>The variables a run of the loop leaves behind, whether it completes or raises.\<close>

definition vars_after :: "outcome \<Rightarrow> env" where
  "vars_after out = (case out of Inl (_, e) \<Rightarrow> e | Inr e \<Rightarrow> e)"

subsection \<open>The specification's formulas\<close>

text \<open>
  The specification asks for \<open>X\<close> of shape \<open>N \<times> p\<close> with \<open>N \<ge> 1\<close> and \<open>p \<ge> 1\<close>, \<open>y\<close> of
  length \<open>N\<close> and \<open>theta0\<close> of length \<open>p\<close>.
\<close>

definition valid_shapes :: "matrix \<Rightarrow> vec \<Rightarrow> vec \<Rightarrow> bool" where
  "valid_shapes X Y t \<longleftrightarrow>
     1 \<le> length X \<and> 1 \<le> length t \<and> list_all (\<lambda>row. length row = length t) X \<and>
     length Y = length X"

text \<open>
  The closed-form step, written from the specification's words entry by entry, without
  the array operations of the code: the residual \<open>r\<^sub>i = (X\<theta> - y)\<^sub>i\<close>, the gradient
  \<open>g\<^sub>j = (2/N) (X\<^sup>T r)\<^sub>j\<close>, the step \<open>\<theta>\<^sub>j - \<gamma> g\<^sub>j\<close> and the mean squared error
  \<open>(1/N) ||X\<theta> - y||\<^sup>2\<close>.
\<close>

definition spec_residual :: "matrix \<Rightarrow> vec \<Rightarrow> vec \<Rightarrow> nat \<Rightarrow> real" where
  "spec_residual X Y t i = (\<Sum>l\<leftarrow>[0..<length t]. X ! i ! l * t ! l) - Y ! i"

definition spec_gradient :: "matrix \<Rightarrow> vec \<Rightarrow> vec \<Rightarrow> nat \<Rightarrow> real" where
  "spec_gradient X Y t j =
     2 / real (length X) * (\<Sum>i\<leftarrow>[0..<length X]. X ! i ! j * spec_residual X Y t i)"

definition spec_step :: "matrix \<Rightarrow> vec \<Rightarrow> real \<Rightarrow> vec \<Rightarrow> vec" where
  "spec_step X Y g t = map (\<lambda>j. t ! j - g * spec_gradient X Y t j) [0..<length t]"

definition mse :: "matrix \<Rightarrow> vec \<Rightarrow> vec \<Rightarrow> real" where
  "mse X Y t = 1 / real (length X) * (\<Sum>i\<leftarrow>[0..<length X]. (spec_residual X Y t i)\<^sup>2)"

text \<open>\<open>theta_k\<close> is the parameter vector after \<open>k\<close> closed-form steps from \<open>theta0\<close>.\<close>

fun theta_k :: "matrix \<Rightarrow> vec \<Rightarrow> real \<Rightarrow> vec \<Rightarrow> nat \<Rightarrow> vec" where
  "theta_k X Y g theta0 0 = theta0"
| "theta_k X Y g theta0 (Suc k) = spec_step X Y g (theta_k X Y g theta0 k)"

text \<open>The sum of the squares of the entries of \<open>X\<close> (the squared Frobenius norm).\<close>

definition frobenius_sq :: "matrix \<Rightarrow> real" where
  "frobenius_sq X = (\<Sum>row\<leftarrow>X. \<Sum>a\<leftarrow>row. a\<^sup>2)"

subsection \<open>The variables after \<open>k\<close> iterations\<close>

text \<open>
  Row \<open>r\<close> of \<open>theta_ev\<close> after \<open>k\<close> iterations of a run of \<open>n\<close>: entry \<open>i < k\<close> holds
  component \<open>r\<close> of \<open>theta_i\<close>, the others still hold the 1 of \<^verbatim>\<open>np.ones\<close>.
\<close>

definition row_after :: "matrix \<Rightarrow> vec \<Rightarrow> real \<Rightarrow> vec \<Rightarrow> nat \<Rightarrow> nat \<Rightarrow> nat \<Rightarrow> vec" where
  "row_after X Y g t0 n k r = map (\<lambda>i. if i < k then theta_k X Y g t0 i ! r else 1) [0..<n]"

definition theta_ev_after :: "matrix \<Rightarrow> vec \<Rightarrow> real \<Rightarrow> vec \<Rightarrow> nat \<Rightarrow> nat \<Rightarrow> matrix" where
  "theta_ev_after X Y g t0 n k = [row_after X Y g t0 n k 0, row_after X Y g t0 n k 1]"

definition env_after :: "matrix \<Rightarrow> vec \<Rightarrow> real \<Rightarrow> vec \<Rightarrow> nat \<Rightarrow> nat \<Rightarrow> env" where
  "env_after X Y g t0 n k =
     (initial_env X Y t0 g (int n) (theta_ev_after X Y g t0 n k))\<lparr>theta := theta_k X Y g t0 k\<rparr>"

subsection \<open>A target of one entry\<close>

text \<open>
  Two sets of variables that differ in \<open>y\<close> only: the first has a \<open>y\<close> of the single entry
  \<open>c\<close>, the second has \<open>c\<close> once for every row of \<open>Xb\<close>.
\<close>

definition one_entry_y :: "real \<Rightarrow> env \<Rightarrow> env \<Rightarrow> bool" where
  "one_entry_y c e1 e2 \<longleftrightarrow> e1 = e2\<lparr>y := [c]\<rparr> \<and> y e2 = replicate (length (Xb e2)) c"

section \<open>Auxiliary facts\<close>

subsection \<open>The array operations, entry by entry\<close>

lemma map2_nth_sum:
  "length row = length v \<Longrightarrow>
   sum_list (map2 (*) row v) = (\<Sum>l\<leftarrow>[0..<length v]. row ! l * v ! (l::nat))"
proof -
  assume len: "length row = length v"
  have "map2 (*) row v = map (\<lambda>l. row ! l * v ! l) [0..<length v]"
    by (rule nth_equalityI) (simp_all add: len)
  then show ?thesis by simp
qed

lemma dot_rows:
  assumes "M \<noteq> []" "list_all (\<lambda>row. length row = length v) M"
  shows "dot M v = Inr (map (\<lambda>row. \<Sum>l\<leftarrow>[0..<length v]. row ! l * v ! l) M)"
proof -
  have nc: "ncols M = length v"
    using assms by (cases M) (simp_all add: ncols_def)
  have "map (\<lambda>row. sum_list (map2 (*) row v)) M
      = map (\<lambda>row. \<Sum>l\<leftarrow>[0..<length v]. row ! l * v ! l) M"
    using assms(2) by (intro map_cong refl map2_nth_sum) (simp add: list_all_iff)
  with nc show ?thesis by (simp add: dot_def)
qed

lemma ncols_rect:
  "M \<noteq> [] \<Longrightarrow> list_all (\<lambda>row. length row = p) M \<Longrightarrow> ncols M = p"
  by (cases M) (simp_all add: ncols_def)

lemma np_T_rows:
  assumes "M \<noteq> []" "list_all (\<lambda>row. length row = p) M"
  shows "np_T M = map (\<lambda>j. map (\<lambda>i. M ! i ! j) [0..<length M]) [0..<p]"
proof -
  have "map (\<lambda>row. row ! j) M = map (\<lambda>i. M ! i ! j) [0..<length M]" for j
    by (rule nth_equalityI) simp_all
  then show ?thesis
    using assms by (simp add: np_T_def ncols_rect)
qed

lemma sum_upt_cong:
  "(\<And>i. i < n \<Longrightarrow> f i = g i) \<Longrightarrow> (\<Sum>i\<leftarrow>[0..<n]. f i) = (\<Sum>i\<leftarrow>[0..<n]. (g i :: real))"
  by (rule arg_cong [where f = sum_list], rule map_cong) simp_all

lemma map2_minus_nth:
  "length u = length v \<Longrightarrow> map2 (-) u v = map (\<lambda>i. u ! i - v ! (i::nat)) [0..<length v]"
  for u v :: "real list"
  by (rule nth_equalityI) simp_all

lemma np_sub_same:
  "length u = length v \<Longrightarrow> np_sub u v = Inr (map (\<lambda>i. u ! i - v ! i) [0..<length v])"
  by (simp add: np_sub_def map2_minus_nth)

lemma dot_X_theta:
  assumes "valid_shapes X Y t"
  shows "dot X t = Inr (map (\<lambda>i. \<Sum>l\<leftarrow>[0..<length t]. X ! i ! l * t ! l) [0..<length X])"
proof -
  have ne: "X \<noteq> []" and rect: "list_all (\<lambda>row. length row = length t) X"
    using assms by (auto simp: valid_shapes_def)
  have "map (\<lambda>row. \<Sum>l\<leftarrow>[0..<length t]. row ! l * t ! l) X
      = map (\<lambda>i. \<Sum>l\<leftarrow>[0..<length t]. X ! i ! l * t ! l) [0..<length X]"
    by (rule nth_equalityI) simp_all
  then show ?thesis
    by (simp add: dot_rows [OF ne rect])
qed

lemma residual_vector:
  assumes "valid_shapes X Y t"
  shows "and_then (dot X t) (\<lambda>p. np_sub p Y) = Inr (map (spec_residual X Y t) [0..<length X])"
proof -
  have len: "length Y = length X"
    using assms by (simp add: valid_shapes_def)
  show ?thesis
    by (simp add: dot_X_theta [OF assms] and_then_def np_sub_same len spec_residual_def)
qed

lemma dot_XT:
  assumes "valid_shapes X Y t" "length r = length X"
  shows "dot (np_T X) r
       = Inr (map (\<lambda>j. \<Sum>i\<leftarrow>[0..<length X]. X ! i ! j * r ! i) [0..<length t])"
proof -
  have ne: "X \<noteq> []" and rect: "list_all (\<lambda>row. length row = length t) X"
    and p: "1 \<le> length t"
    using assms by (auto simp: valid_shapes_def)
  have T: "np_T X = map (\<lambda>j. map (\<lambda>i. X ! i ! j) [0..<length X]) [0..<length t]"
    by (rule np_T_rows [OF ne rect])
  have ne': "np_T X \<noteq> []"
    using p by (auto simp: T)
  have rect': "list_all (\<lambda>row. length row = length r) (np_T X)"
    by (simp add: T list_all_iff assms(2))
  show ?thesis
    by (simp add: dot_rows [OF ne' rect'] assms(2)) (auto simp: T o_def intro!: sum_upt_cong)
qed

lemma gradients_spec:
  assumes "valid_shapes (Xb e) (y e) (theta e)" "N e = int (length (Xb e))"
  shows "gradients e
       = Inr (map (spec_gradient (Xb e) (y e) (theta e)) [0..<length (theta e)])"
proof -
  have n0: "N e \<noteq> 0"
    using assms by (auto simp: valid_shapes_def)
  have r: "and_then (dot (Xb e) (theta e)) (\<lambda>p. np_sub p (y e))
         = Inr (map (spec_residual (Xb e) (y e) (theta e)) [0..<length (Xb e)])"
    by (rule residual_vector [OF assms(1)])
  have g: "dot (np_T (Xb e)) (map (spec_residual (Xb e) (y e) (theta e)) [0..<length (Xb e)])
         = Inr (map (\<lambda>j. \<Sum>i\<leftarrow>[0..<length (Xb e)].
                   Xb e ! i ! j * spec_residual (Xb e) (y e) (theta e) i) [0..<length (theta e)])"
    by (subst dot_XT [OF assms(1)]) (auto intro!: sum_upt_cong)
  have "gradients e
      = and_then (and_then (dot (Xb e) (theta e)) (\<lambda>p. np_sub p (y e)))
          (\<lambda>r. and_then (dot (np_T (Xb e)) r) (\<lambda>g. Inr (np_smul (2 / real_of_int (N e)) g)))"
    using n0 by (simp add: gradients_def true_div_def and_then_def split: sum.splits)
  also have "\<dots> = Inr (np_smul (2 / real_of_int (N e))
      (map (\<lambda>j. \<Sum>i\<leftarrow>[0..<length (Xb e)].
                   Xb e ! i ! j * spec_residual (Xb e) (y e) (theta e) i) [0..<length (theta e)]))"
    by (simp add: r) (simp add: and_then_def g)
  finally show ?thesis
    by (simp add: np_smul_def spec_gradient_def assms(2) o_def)
qed

lemma update_theta_spec:
  assumes "valid_shapes (Xb e) (y e) (theta e)" "N e = int (length (Xb e))"
  shows "update_theta e
       = Inr (e\<lparr>theta := spec_step (Xb e) (y e) (gamma e) (theta e)\<rparr>)"
  by (simp add: update_theta_def gradients_spec [OF assms] and_then_def np_smul_def
      np_sub_same spec_step_def o_def)




lemma length_spec_step [simp]: "length (spec_step X Y g t) = length t"
  by (simp add: spec_step_def)

lemma length_theta_k [simp]: "length (theta_k X Y g t0 k) = length t0"
  by (induction k) simp_all

lemma valid_shapes_theta_k:
  "valid_shapes X Y t0 \<Longrightarrow> valid_shapes X Y (theta_k X Y g t0 k)"
  by (simp add: valid_shapes_def)

lemma row_after_Suc:
  "k < n \<Longrightarrow> (row_after X Y g t0 n k r)[k := theta_k X Y g t0 k ! r] = row_after X Y g t0 n (Suc k) r"
  by (rule nth_equalityI) (auto simp: row_after_def nth_list_update less_Suc_eq)

lemma length_row_after [simp]: "length (row_after X Y g t0 n k r) = n"
  by (simp add: row_after_def)

lemma record_both:
  assumes "2 \<le> length t0" "k < n"
  shows "exec (record_theta 0 k) (env_after X Y g t0 n k)
           = Inr ((env_after X Y g t0 n k)
                \<lparr>theta_ev := [row_after X Y g t0 n (Suc k) 0, row_after X Y g t0 n k 1]\<rparr>)"
    and "exec (record_theta 1 k) ((env_after X Y g t0 n k)
                \<lparr>theta_ev := [row_after X Y g t0 n (Suc k) 0, row_after X Y g t0 n k 1]\<rparr>)
           = Inr ((env_after X Y g t0 n k)\<lparr>theta_ev := theta_ev_after X Y g t0 n (Suc k)\<rparr>)"
  using assms
  by (auto simp add: exec_def record_theta_def and_then_def getitem_def itemset_def env_after_def
      initial_env_def theta_ev_after_def row_after_Suc)

lemma loop_body_env_after:
  assumes v: "valid_shapes X Y t0" and p: "2 \<le> length t0" and k: "k < n"
  shows "loop_body k (env_after X Y g t0 n k) = Inr (env_after X Y g t0 n (Suc k))"
proof -
  let ?e2 = "(env_after X Y g t0 n k)\<lparr>theta_ev := theta_ev_after X Y g t0 n (Suc k)\<rparr>"
  have vs: "valid_shapes (Xb ?e2) (y ?e2) (theta ?e2)"
    using v by (simp add: env_after_def initial_env_def valid_shapes_theta_k)
  have N: "N ?e2 = int (length (Xb ?e2))"
    by (simp add: env_after_def initial_env_def)
  have "exec update_theta ?e2 = Inr (env_after X Y g t0 n (Suc k))"
    by (simp add: exec_def update_theta_spec [OF vs N]) (simp add: env_after_def initial_env_def)
  then show ?thesis
    by (simp add: loop_body_def record_both [OF p k] del: One_nat_def)
qed

lemma for_loop_append:
  "for_loop (xs @ ys) e = (case for_loop xs e of Inl x \<Rightarrow> Inl x | Inr e' \<Rightarrow> for_loop ys e')"
  by (induction xs arbitrary: e) (simp_all split: sum.splits)

lemma for_loop_env_after:
  assumes "valid_shapes X Y t0" "2 \<le> length t0" "k \<le> n"
  shows "for_loop [0..<k] (env_after X Y g t0 n 0) = Inr (env_after X Y g t0 n k)"
  using assms(3)
proof (induction k)
  case 0
  show ?case by simp
next
  case (Suc k)
  then have "for_loop [0..<k] (env_after X Y g t0 n 0) = Inr (env_after X Y g t0 n k)" and "k < n"
    by simp_all
  then show ?case
    by (simp add: for_loop_append loop_body_env_after [OF assms(1,2)])
qed

lemma env_after_0:
  "np_ones 2 (int n) = Inr ev \<Longrightarrow> initial_env X Y t0 g (int n) ev = env_after X Y g t0 n 0"
  by (auto simp: np_ones_def env_after_def initial_env_def theta_ev_after_def row_after_def
      numeral_2_eq_2 map_replicate_const)

lemma run_valid:
  assumes "valid_shapes X Y t0" "2 \<le> length t0"
  shows "run X Y t0 g (int n) = Inr (theta_k X Y g t0 n, theta_ev_after X Y g t0 n n)"
proof -
  have ones: "np_ones 2 (int n) = Inr (replicate 2 (replicate n 1))"
    by (simp add: np_ones_def)
  have "gradient_descent (env_after X Y g t0 n 0) = Inr (env_after X Y g t0 n n)"
    using for_loop_env_after [OF assms, of n n g]
    by (simp add: gradient_descent_def py_range_def env_after_def initial_env_def)
  then show ?thesis
    by (simp add: run_def ones and_then_def env_after_0 [OF ones])
       (simp add: env_after_def initial_env_def)
qed

lemma trajectory_after:
  "trajectory (theta_ev_after X Y g t0 n n)
     = map (\<lambda>k. [theta_k X Y g t0 k ! 0, theta_k X Y g t0 k ! 1]) [0..<n]"
  by (simp add: trajectory_def np_T_def ncols_def theta_ev_after_def row_after_def)

lemma take_2: "2 \<le> length xs \<Longrightarrow> take 2 xs = [xs ! 0, xs ! 1]"
  by (cases xs; cases "tl xs") (auto simp: numeral_2_eq_2)

subsection \<open>One gradient step does not increase the error\<close>

text \<open>
  A fact of the exact arithmetic of the model: with \<open>0 \<le> \<gamma>\<close> and \<open>\<gamma> ||X||\<^sup>2 \<le> N\<close>, where
  \<open>||X||\<^sup>2\<close> is the sum of the squares of the entries of \<open>X\<close>, one closed-form step does not
  increase the mean squared error. It says nothing about the rounded float64 iterates.
\<close>

lemma sum_list_upt_sum: "(\<Sum>i\<leftarrow>[0..<n]. f i) = (\<Sum>i<n. (f i :: real))"
  by (simp add: interv_sum_list_conv_sum_set_nat atLeast0LessThan)

lemma cauchy_schwarz_sum:
  fixes a b :: "nat \<Rightarrow> real"
  shows "(\<Sum>i<n. a i * b i)\<^sup>2 \<le> (\<Sum>i<n. (a i)\<^sup>2) * (\<Sum>i<n. (b i)\<^sup>2)"
proof -
  let ?A = "\<Sum>i<n. (a i)\<^sup>2" and ?B = "\<Sum>i<n. (b i)\<^sup>2" and ?C = "\<Sum>i<n. a i * b i"
  have expand: "(a i * b j - a j * b i)\<^sup>2
      = (a i)\<^sup>2 * (b j)\<^sup>2 - 2 * ((a i * b i) * (a j * b j)) + (b i)\<^sup>2 * (a j)\<^sup>2" for i j
    by (simp add: power2_eq_square algebra_simps)
  have "0 \<le> (\<Sum>i<n. \<Sum>j<n. (a i * b j - a j * b i)\<^sup>2)"
    by (intro sum_nonneg) simp
  also have "\<dots> = (\<Sum>i<n. \<Sum>j<n. (a i)\<^sup>2 * (b j)\<^sup>2)
                - 2 * (\<Sum>i<n. \<Sum>j<n. (a i * b i) * (a j * b j))
                + (\<Sum>i<n. \<Sum>j<n. (b i)\<^sup>2 * (a j)\<^sup>2)"
    by (simp only: expand sum.distrib sum_subtractf sum_distrib_left [symmetric])
  also have "\<dots> = ?A * ?B - 2 * (?C * ?C) + ?B * ?A"
    by (simp only: sum_product [symmetric])
  finally have "0 \<le> 2 * (?A * ?B) - 2 * ?C\<^sup>2"
    by (simp add: power2_eq_square algebra_simps)
  then show ?thesis by simp
qed


lemma sum_list_nth_sum: "sum_list (map f xs) = (\<Sum>i<length xs. (f (xs ! i) :: real))"
proof -
  have "map f xs = map (\<lambda>i. f (xs ! i)) [0..<length xs]"
    by (rule nth_equalityI) simp_all
  then show ?thesis
    by (simp only: sum_list_upt_sum)
qed

lemma frobenius_sq_sum:
  assumes "list_all (\<lambda>row. length row = p) X"
  shows "frobenius_sq X = (\<Sum>i<length X. \<Sum>l<p. (X ! i ! l)\<^sup>2)"
proof -
  have "frobenius_sq X = (\<Sum>i<length X. \<Sum>l<length (X ! i). (X ! i ! l)\<^sup>2)"
    unfolding frobenius_sq_def by (simp add: sum_list_nth_sum)
  also have "\<dots> = (\<Sum>i<length X. \<Sum>l<p. (X ! i ! l)\<^sup>2)"
    using assms by (intro sum.cong refl) (simp add: list_all_length)
  finally show ?thesis .
qed


lemma nth_spec_step:
  "l < length t \<Longrightarrow> spec_step X Y g t ! l = t ! l - g * spec_gradient X Y t l"
  by (simp add: spec_step_def)

lemma residual_after_step:
  "spec_residual X Y (spec_step X Y g t) i
     = spec_residual X Y t i - g * (\<Sum>l<length t. X ! i ! l * spec_gradient X Y t l)"
proof -
  have "(\<Sum>l<length t. X ! i ! l * spec_step X Y g t ! l)
      = (\<Sum>l<length t. X ! i ! l * t ! l - g * (X ! i ! l * spec_gradient X Y t l))"
    by (intro sum.cong refl) (simp add: nth_spec_step algebra_simps)
  then show ?thesis
    by (simp add: spec_residual_def sum_list_upt_sum sum_subtractf sum_distrib_left)
qed

lemma mse_step_le:
  assumes v: "valid_shapes X Y t" and g0: "0 \<le> g"
    and small: "g * frobenius_sq X \<le> real (length X)"
  shows "mse X Y (spec_step X Y g t) \<le> mse X Y t"
proof -
  define n where "n = length X"
  define p where "p = length t"
  define r where "r = spec_residual X Y t"
  define G where "G = spec_gradient X Y t"
  define q where "q = (\<lambda>i. \<Sum>l<p. X ! i ! l * G l)"
  define S where "S = (\<Sum>l<p. (G l)\<^sup>2)"
  define F where "F = (\<Sum>i<n. \<Sum>l<p. (X ! i ! l)\<^sup>2)"
  have n_pos: "0 < real n"
    using v by (auto simp: valid_shapes_def n_def)
  have rect: "list_all (\<lambda>row. length row = p) X"
    using v by (simp add: valid_shapes_def p_def)
  have F: "frobenius_sq X = F"
    by (simp add: frobenius_sq_sum [OF rect] F_def n_def)
  have S0: "0 \<le> S"
    unfolding S_def by (intro sum_nonneg) simp
  have G: "(\<Sum>i<n. X ! i ! l * r i) = real n / 2 * G l" for l
    using n_pos by (simp add: G_def spec_gradient_def sum_list_upt_sum n_def r_def)
  have r': "spec_residual X Y (spec_step X Y g t) i = r i - g * q i" for i
    by (simp add: residual_after_step r_def q_def p_def G_def)
  have cross: "(\<Sum>i<n. r i * q i) = real n / 2 * S"
  proof -
    have "(\<Sum>i<n. r i * q i) = (\<Sum>i<n. \<Sum>l<p. G l * (X ! i ! l * r i))"
      by (simp add: q_def sum_distrib_left algebra_simps)
    also have "\<dots> = (\<Sum>l<p. \<Sum>i<n. G l * (X ! i ! l * r i))"
      by (rule sum.swap)
    also have "\<dots> = (\<Sum>l<p. G l * (real n / 2 * G l))"
      by (simp only: sum_distrib_left [symmetric] G)
    also have "\<dots> = real n / 2 * S"
      by (simp add: S_def sum_distrib_left power2_eq_square algebra_simps)
    finally show ?thesis .
  qed
  have quad: "(\<Sum>i<n. (q i)\<^sup>2) \<le> F * S"
  proof -
    have "(q i)\<^sup>2 \<le> (\<Sum>l<p. (X ! i ! l)\<^sup>2) * S" for i
      unfolding q_def S_def by (rule cauchy_schwarz_sum)
    then have "(\<Sum>i<n. (q i)\<^sup>2) \<le> (\<Sum>i<n. (\<Sum>l<p. (X ! i ! l)\<^sup>2) * S)"
      by (intro sum_mono)
    then show ?thesis
      by (simp add: F_def sum_distrib_right)
  qed
  have "(\<Sum>i<n. (r i - g * q i)\<^sup>2)
      = (\<Sum>i<n. (r i)\<^sup>2) - 2 * g * (\<Sum>i<n. r i * q i) + g\<^sup>2 * (\<Sum>i<n. (q i)\<^sup>2)"
    by (simp add: power2_diff sum.distrib sum_subtractf sum_distrib_left
        algebra_simps)
  also have "\<dots> = (\<Sum>i<n. (r i)\<^sup>2) - g * real n * S + g\<^sup>2 * (\<Sum>i<n. (q i)\<^sup>2)"
    by (simp add: cross)
  also have "\<dots> \<le> (\<Sum>i<n. (r i)\<^sup>2) - g * real n * S + g\<^sup>2 * (F * S)"
    using quad by (intro add_left_mono mult_left_mono) simp_all
  also have "\<dots> = (\<Sum>i<n. (r i)\<^sup>2) - g * S * (real n - g * F)"
    by (simp add: power2_eq_square algebra_simps)
  also have "\<dots> \<le> (\<Sum>i<n. (r i)\<^sup>2)"
  proof -
    have "0 \<le> g * S * (real n - g * F)"
      using g0 S0 small by (intro mult_nonneg_nonneg) (simp_all add: F n_def)
    then show ?thesis by simp
  qed
  finally have "(\<Sum>i<n. (r i - g * q i)\<^sup>2) \<le> (\<Sum>i<n. (r i)\<^sup>2)" .
  then have "1 / real n * (\<Sum>i<n. (r i - g * q i)\<^sup>2) \<le> 1 / real n * (\<Sum>i<n. (r i)\<^sup>2)"
    using n_pos by (intro mult_left_mono) simp_all
  then show ?thesis
    by (simp add: mse_def sum_list_upt_sum r' n_def r_def)
qed

subsection \<open>What the statements of the loop leave unchanged\<close>

lemma record_theta_writes:
  "record_theta r i e = Inr e' \<Longrightarrow> \<exists>ev. e' = e\<lparr>theta_ev := ev\<rparr>"
  by (auto simp: record_theta_def and_then_def split: sum.splits)

lemma update_theta_writes:
  "update_theta e = Inr e' \<Longrightarrow> \<exists>t. e' = e\<lparr>theta := t\<rparr>"
  by (auto simp: update_theta_def and_then_def split: sum.splits)

lemma exec_record_theta_data:
  "Xb (vars_after (exec (record_theta r i) e)) = Xb e \<and>
   y (vars_after (exec (record_theta r i) e)) = y e"
  by (cases "record_theta r i e")
     (auto simp: exec_def vars_after_def dest: record_theta_writes)

lemma exec_update_theta_data:
  "Xb (vars_after (exec update_theta e)) = Xb e \<and> y (vars_after (exec update_theta e)) = y e"
  by (cases "update_theta e")
     (auto simp: exec_def vars_after_def dest: update_theta_writes)

lemma loop_body_data:
  "Xb (vars_after (loop_body i e)) = Xb e \<and> y (vars_after (loop_body i e)) = y e"
proof (cases "exec (record_theta 0 i) e")
  case (Inl x)
  with exec_record_theta_data [of 0 i e] show ?thesis
    by (simp add: loop_body_def vars_after_def)
next
  case e1: (Inr e1)
  with exec_record_theta_data [of 0 i e] have d1: "Xb e1 = Xb e" "y e1 = y e"
    by (simp_all add: vars_after_def)
  show ?thesis
  proof (cases "exec (record_theta 1 i) e1")
    case (Inl x)
    with exec_record_theta_data [of 1 i e1] e1 d1 show ?thesis
      by (simp add: loop_body_def vars_after_def)
  next
    case (Inr e2)
    with exec_record_theta_data [of 1 i e1] have d2: "Xb e2 = Xb e1" "y e2 = y e1"
      by (simp_all add: vars_after_def)
    from e1 Inr exec_update_theta_data [of e2] d1 d2 show ?thesis
      by (simp add: loop_body_def)
  qed
qed

lemma for_loop_data:
  "Xb (vars_after (for_loop is e)) = Xb e \<and> y (vars_after (for_loop is e)) = y e"
proof (induction "is" arbitrary: e)
  case Nil
  show ?case by (simp add: vars_after_def)
next
  case (Cons i "is")
  show ?case
  proof (cases "loop_body i e")
    case (Inl x)
    with loop_body_data [of i e] show ?thesis by simp
  next
    case (Inr e')
    with loop_body_data [of i e] have "Xb e' = Xb e" "y e' = y e"
      by (simp_all add: vars_after_def)
    with Inr Cons.IH [of e'] show ?thesis by simp
  qed
qed

lemma loop_body_theta:
  assumes "loop_body i e = Inr e'"
  shows "\<exists>ev. update_theta (e\<lparr>theta_ev := ev\<rparr>) = Inr e'"
proof -
  from assms obtain e1 e2 where
    r0: "record_theta 0 i e = Inr e1" and r1: "record_theta 1 i e1 = Inr e2"
    and u: "update_theta e2 = Inr e'"
    by (auto simp: loop_body_def exec_def split: sum.splits)
  from r0 r1 obtain ev where "e2 = e\<lparr>theta_ev := ev\<rparr>"
    by (auto dest!: record_theta_writes)
  with u show ?thesis by auto
qed

subsection \<open>Runs without iterations and runs that raise\<close>

lemma run_no_iterations: "run X Y t0 g 0 = Inr (t0, [[], []])"
  by (simp add: run_def np_ones_def and_then_def gradient_descent_def py_range_def
      initial_env_def numeral_2_eq_2)

lemma trajectory_empty: "trajectory [[], []] = []"
  by (simp add: trajectory_def np_T_def ncols_def)

lemma run_negative: "n < 0 \<Longrightarrow> run X Y t0 g n = Inl (ValueError NegativeDimensions)"
  by (simp add: run_def np_ones_def and_then_def)

lemma py_range_pos: "1 \<le> n \<Longrightarrow> py_range n = 0 # [1..<nat n]"
  by (simp add: py_range_def upt_conv_Cons)

lemma first_snapshot:
  assumes "2 \<le> length t0" "1 \<le> n"
  shows "\<exists>e1. exec (record_theta 0 0) (initial_env X Y t0 g n (replicate 2 (replicate (nat n) 1)))
              = Inr e1 \<and>
            exec (record_theta 1 0) e1
              = Inr (initial_env X Y t0 g n
                   [(replicate (nat n) 1)[0 := t0 ! 0], (replicate (nat n) 1)[0 := t0 ! 1]])"
  using assms
  by (auto simp: exec_def record_theta_def and_then_def getitem_def itemset_def initial_env_def
      numeral_2_eq_2)

lemma update_theta_mismatch:
  assumes ne: "Xb e \<noteq> []" and N: "N e = int (length (Xb e))" and p: "1 \<le> length (theta e)"
    and bad: "ncols (Xb e) \<noteq> length (theta e) \<or>
              (length (y e) \<noteq> length (Xb e) \<and> length (y e) \<noteq> 1)"
  shows "update_theta e
       = Inl (ValueError (if ncols (Xb e) = length (theta e) \<and> length (Xb e) \<noteq> 1
                          then CannotBroadcast else ShapesNotAligned))"
proof (cases "ncols (Xb e) = length (theta e)")
  case False
  with ne N show ?thesis
    by (simp add: update_theta_def gradients_def and_then_def true_div_def dot_def)
next
  case True
  with bad have Y: "length (y e) \<noteq> length (Xb e)" "length (y e) \<noteq> 1"
    by simp_all
  show ?thesis
  proof (cases "length (Xb e) = 1")
    case False
    with True ne N Y show ?thesis
      by (simp add: update_theta_def gradients_def and_then_def true_div_def dot_def np_sub_def)
  next
    case one: True
    from p have "0 < length (theta e)"
      by auto
    with True have "[0..<ncols (Xb e)] = 0 # [1..<ncols (Xb e)]"
      by (simp add: upt_conv_Cons)
    then have "ncols (np_T (Xb e)) = 1"
      using one by (simp add: np_T_def ncols_def)
    with True one ne N Y show ?thesis
      by (simp add: update_theta_def gradients_def and_then_def true_div_def dot_def np_sub_def)
  qed
qed

lemma gradient_descent_mismatch:
  assumes n: "1 \<le> n" and ne: "X \<noteq> []" and p: "2 \<le> length t0"
    and bad: "ncols X \<noteq> length t0 \<or> (length Y \<noteq> length X \<and> length Y \<noteq> 1)"
  shows "gradient_descent (initial_env X Y t0 g n (replicate 2 (replicate (nat n) 1)))
       = Inl (ValueError (if ncols X = length t0 \<and> length X \<noteq> 1
                          then CannotBroadcast else ShapesNotAligned),
              initial_env X Y t0 g n
                [(replicate (nat n) 1)[0 := t0 ! 0], (replicate (nat n) 1)[0 := t0 ! 1]])"
proof -
  let ?e2 = "initial_env X Y t0 g n
                [(replicate (nat n) 1)[0 := t0 ! 0], (replicate (nat n) 1)[0 := t0 ! 1]]"
  have "update_theta ?e2
      = Inl (ValueError (if ncols (Xb ?e2) = length (theta ?e2) \<and> length (Xb ?e2) \<noteq> 1
                         then CannotBroadcast else ShapesNotAligned))"
    using ne p bad by (intro update_theta_mismatch) (simp_all add: initial_env_def)
  then have u: "exec update_theta ?e2
      = Inl (ValueError (if ncols X = length t0 \<and> length X \<noteq> 1
                         then CannotBroadcast else ShapesNotAligned), ?e2)"
    by (simp add: exec_def initial_env_def)
  from first_snapshot [OF p n, of X Y g] obtain e1 where
    "exec (record_theta 0 0) (initial_env X Y t0 g n (replicate 2 (replicate (nat n) 1))) = Inr e1"
    "exec (record_theta 1 0) e1 = Inr ?e2"
    by blast
  with u have "loop_body 0 (initial_env X Y t0 g n (replicate 2 (replicate (nat n) 1)))
      = Inl (ValueError (if ncols X = length t0 \<and> length X \<noteq> 1
                         then CannotBroadcast else ShapesNotAligned), ?e2)"
    by (simp add: loop_body_def)
  then show ?thesis
    by (simp add: gradient_descent_def py_range_pos [OF n] initial_env_def)
qed

lemma run_mismatch:
  assumes "1 \<le> n" "X \<noteq> []" "2 \<le> length t0"
    and "ncols X \<noteq> length t0 \<or> (length Y \<noteq> length X \<and> length Y \<noteq> 1)"
  shows "run X Y t0 g n
       = Inl (ValueError (if ncols X = length t0 \<and> length X \<noteq> 1
                          then CannotBroadcast else ShapesNotAligned))"
  using assms(1) gradient_descent_mismatch [OF assms, of g]
  by (simp add: run_def np_ones_def and_then_def)

lemma run_one_parameter:
  assumes "length t0 < 2" "1 \<le> n"
  shows "run X Y t0 g n = Inl IndexError"
proof -
  have "\<exists>e'. loop_body 0 (initial_env X Y t0 g n (replicate 2 (replicate (nat n) 1)))
      = Inl (IndexError, e')"
    using assms
    by (cases t0; cases "tl t0")
       (auto simp: loop_body_def exec_def record_theta_def and_then_def getitem_def itemset_def
         initial_env_def numeral_2_eq_2)
  then obtain e' where
    "loop_body 0 (initial_env X Y t0 g n (replicate 2 (replicate (nat n) 1))) = Inl (IndexError, e')"
    by blast
  then show ?thesis
    using assms(2)
    by (simp add: run_def np_ones_def and_then_def gradient_descent_def py_range_pos initial_env_def)
qed

subsection \<open>A target of one entry is broadcast\<close>

lemma np_sub_one_entry: "np_sub p [c] = np_sub p (replicate (length p) c)"
proof (cases "length p = 1")
  case True
  then show ?thesis
    by (simp add: np_sub_def)
next
  case False
  have "map2 (-) p (replicate (length p) c) = map (\<lambda>a. a - c) p"
    by (rule nth_equalityI) simp_all
  with False show ?thesis
    by (simp add: np_sub_def)
qed

lemma length_dot: "dot M v = Inr p \<Longrightarrow> length p = length M"
  by (auto simp: dot_def split: if_splits)

lemma gradients_one_entry:
  "gradients (e\<lparr>y := [c]\<rparr>) = gradients (e\<lparr>y := replicate (length (Xb e)) c\<rparr>)"
proof (cases "dot (Xb e) (theta e)")
  case (Inl err)
  then show ?thesis
    by (simp add: gradients_def and_then_def split: sum.splits)
next
  case (Inr p)
  then have "np_sub p [c] = np_sub p (replicate (length (Xb e)) c)"
    using np_sub_one_entry [of p c] by (simp add: length_dot)
  with Inr show ?thesis
    by (simp add: gradients_def and_then_def split: sum.splits)
qed

lemma one_entry_y_record:
  assumes "one_entry_y c e1 e2"
  shows "rel_sum (rel_prod (=) (one_entry_y c)) (one_entry_y c)
           (exec (record_theta r i) e1) (exec (record_theta r i) e2)"
  using assms
  by (auto simp: one_entry_y_def exec_def record_theta_def and_then_def split: sum.splits)

lemma one_entry_y_update:
  assumes "one_entry_y c e1 e2"
  shows "rel_sum (rel_prod (=) (one_entry_y c)) (one_entry_y c)
           (exec update_theta e1) (exec update_theta e2)"
proof -
  from assms have e1: "e1 = e2\<lparr>y := [c]\<rparr>" and e2: "e2 = e2\<lparr>y := replicate (length (Xb e2)) c\<rparr>"
    by (simp_all add: one_entry_y_def)
  have "gradients e1 = gradients e2"
    by (subst e1, subst (2) e2) (rule gradients_one_entry)
  with assms show ?thesis
    by (auto simp: one_entry_y_def exec_def update_theta_def and_then_def split: sum.splits)
qed

lemma one_entry_y_loop_body:
  assumes "one_entry_y c e1 e2"
  shows "rel_sum (rel_prod (=) (one_entry_y c)) (one_entry_y c) (loop_body i e1) (loop_body i e2)"
proof -
  note r0 = one_entry_y_record [OF assms, of 0 i]
  show ?thesis
  proof (cases "exec (record_theta 0 i) e2")
    case (Inl x)
    with r0 show ?thesis
      by (cases "exec (record_theta 0 i) e1") (simp_all add: loop_body_def)
  next
    case a2: (Inr a2)
    with r0 obtain a1 where a1: "exec (record_theta 0 i) e1 = Inr a1" and a: "one_entry_y c a1 a2"
      by (cases "exec (record_theta 0 i) e1") simp_all
    note r1 = one_entry_y_record [OF a, of 1 i]
    show ?thesis
    proof (cases "exec (record_theta 1 i) a2")
      case (Inl x)
      with r1 a1 a2 show ?thesis
        by (cases "exec (record_theta 1 i) a1") (simp_all add: loop_body_def)
    next
      case b2: (Inr b2)
      with r1 obtain b1 where b1: "exec (record_theta 1 i) a1 = Inr b1" and b: "one_entry_y c b1 b2"
        by (cases "exec (record_theta 1 i) a1") simp_all
      from one_entry_y_update [OF b] a1 a2 b1 b2 show ?thesis
        by (simp add: loop_body_def)
    qed
  qed
qed

lemma one_entry_y_for_loop:
  assumes "one_entry_y c e1 e2"
  shows "rel_sum (rel_prod (=) (one_entry_y c)) (one_entry_y c) (for_loop is e1) (for_loop is e2)"
  using assms
proof (induction "is" arbitrary: e1 e2)
  case Nil
  then show ?case by simp
next
  case (Cons i "is")
  from one_entry_y_loop_body [OF Cons.prems, of i] show ?case
    by (cases "loop_body i e1"; cases "loop_body i e2") (auto intro: Cons.IH)
qed

lemma run_one_entry_y: "run X [c] t0 g n = run X (replicate (length X) c) t0 g n"
proof (cases "np_ones 2 n")
  case (Inl err)
  then show ?thesis
    by (simp add: run_def and_then_def)
next
  case (Inr ev)
  have "one_entry_y c (initial_env X [c] t0 g n ev)
          (initial_env X (replicate (length X) c) t0 g n ev)"
    by (simp add: one_entry_y_def initial_env_def)
  from one_entry_y_for_loop [OF this, of "py_range n"] Inr show ?thesis
    by (cases "for_loop (py_range n) (initial_env X [c] t0 g n ev)";
        cases "for_loop (py_range n) (initial_env X (replicate (length X) c) t0 g n ev)")
       (auto simp: run_def and_then_def gradient_descent_def initial_env_def one_entry_y_def)
qed

subsection \<open>The example of the specification, evaluated\<close>

text \<open>
  \<open>X = [[1,0],[1,1],[1,2]]\<close>, \<open>y = [1,2,3]\<close>, \<open>theta0 = [0,0]\<close>, \<open>\<gamma> = 0.1\<close>: the residual is
  \<open>-y\<close>, \<open>X\<^sup>T r = [-6,-8]\<close>, the gradient is \<open>[-4,-16/3]\<close> and the step gives \<open>[2/5, 8/15]\<close>.
\<close>

lemma example_valid: "valid_shapes [[1,0],[1,1],[1,2]] [1,2,3] [0,0]"
  by (simp add: valid_shapes_def)

lemma example_step:
  "spec_step [[1,0],[1,1],[1,2]] [1,2,3] (1/10) [0,0] = [2/5, 8/15]"
  by (simp add: spec_step_def spec_gradient_def spec_residual_def)

lemma example_step_one_parameter: "spec_step [[1],[1],[1]] [1,2,3] (1/10) [0] = [2/5]"
  by (simp add: spec_step_def spec_gradient_def spec_residual_def)

lemma example_step_constant_target:
  "spec_step [[1,0],[1,1],[1,2]] [1,1,1] (1/10) [0,0] = [1/5, 1/5]"
  by (simp add: spec_step_def spec_gradient_def spec_residual_def)

lemma example_step2:
  "spec_step [[1,0],[1,1],[1,2]] [1,2,3] (1/10) [2/5, 8/15] = [46/75, 182/225]"
  by (simp add: spec_step_def spec_gradient_def spec_residual_def)

lemma spec_step_zero: "spec_step X Y 0 t = t"
  by (simp add: spec_step_def map_nth)

lemma theta_k_zero: "theta_k X Y 0 t0 k = t0"
  by (induction k) (simp_all add: spec_step_zero)

lemma run_trajectory:
  assumes "valid_shapes X Y t0" "2 \<le> length t0"
  shows "\<exists>ev. run X Y t0 g (int n) = Inr (theta_k X Y g t0 n, ev) \<and>
           length (trajectory ev) = n \<and>
           (\<forall>k<n. trajectory ev ! k = take 2 (theta_k X Y g t0 k))"
proof -
  let ?ev = "theta_ev_after X Y g t0 n n"
  have "run X Y t0 g (int n) = Inr (theta_k X Y g t0 n, ?ev)"
    by (rule run_valid [OF assms])
  moreover have "length (trajectory ?ev) = n"
    by (simp add: trajectory_after)
  moreover have "\<forall>k<n. trajectory ?ev ! k = take 2 (theta_k X Y g t0 k)"
    using assms(2) by (simp add: trajectory_after take_2)
  ultimately show ?thesis by blast
qed

section \<open>The claims\<close>

text \<open>
  C4. With \<open>n_iterations = 0\<close> the run returns \<open>theta0\<close> unchanged and an empty
  trajectory: \<open>theta_ev\<close> is the array of shape \<open>(2, 0)\<close>, which has no column.
\<close>

theorem zero_iterations_return_theta0:
  "run X Y theta0 g 0 = Inr (theta0, [[], []]) \<and> trajectory [[], []] = []"
  by (simp add: run_no_iterations trajectory_empty)

text \<open>
  C6. A negative \<open>n_iterations\<close> makes the run fail instead of doing zero iterations:
  \<^verbatim>\<open>np.ones((2, n_iterations))\<close> raises \<^verbatim>\<open>ValueError\<close> (negative dimensions are not
  allowed) before the loop is reached. \<^verbatim>\<open>ValueError\<close> is Python's exception for an
  argument of the right type and an invalid value.
\<close>

theorem negative_iterations_rejected:
  "n < 0 \<Longrightarrow> run X Y theta0 g n = Inl (ValueError NegativeDimensions)"
  by (rule run_negative)

theorem negative_iterations_rejected_witness:
  "(-1::int) < 0 \<and>
   run [[1,0],[1,1],[1,2]] [1,2,3] [0,0] (1/10) (-1) = Inl (ValueError NegativeDimensions)"
  using negative_iterations_rejected [of "-1" "[[1,0],[1,1],[1,2]]" "[1,2,3]" "[0,0]" "1/10"]
  by simp

text \<open>
  C9. The loop never writes \<open>Xb\<close> or \<open>y\<close>: whatever the variables are when it starts and
  whether it completes or raises, \<open>Xb\<close> and \<open>y\<close> are afterwards what they were before.
  \<open>Xb.T\<close>, \<open>dot\<close> and the subtraction build new arrays, \<open>itemset\<close> writes \<open>theta_ev\<close> and
  the assignment rebinds \<open>theta\<close>.
\<close>

theorem data_not_mutated:
  "Xb (vars_after (gradient_descent e)) = Xb e \<and> y (vars_after (gradient_descent e)) = y e"
  unfolding gradient_descent_def by (rule for_loop_data)

text \<open>
  C1, as stated: in every iteration \<open>k\<close> of a run the parameter vector is updated by
  exactly the closed-form step \<open>\<theta> - \<gamma> (2/N) X\<^sup>T (X\<theta> - y)\<close>. This fails for valid inputs with
  one parameter: iteration 0 raises \<^verbatim>\<open>IndexError\<close> at \<open>theta[1]\<close> before its update is
  reached. With three data points and \<open>theta0 = [0]\<close> the run of one iteration raises and
  leaves \<open>theta\<close> at \<open>[0]\<close>, where the closed-form step gives \<open>[2/5]\<close>.
\<close>

theorem closed_form_step_counterexample:
  "valid_shapes [[1],[1],[1]] [1,2,3] [0] \<and>
   run [[1],[1],[1]] [1,2,3] [0] (1/10) 1 = Inl IndexError \<and>
   gradient_descent (initial_env [[1],[1],[1]] [1,2,3] [0] (1/10) 1 [[1],[1]])
     = Inl (IndexError, initial_env [[1],[1],[1]] [1,2,3] [0] (1/10) 1 [[0],[1]]) \<and>
   spec_step [[1],[1],[1]] [1,2,3] (1/10) [0] = [2/5]"
  by (simp add: valid_shapes_def run_one_parameter example_step_one_parameter
      gradient_descent_def py_range_def initial_env_def loop_body_def exec_def record_theta_def
      getitem_def itemset_def and_then_def)

text \<open>
  C1, amended. For all valid inputs with at least two parameters the run of
  \<open>n_iterations\<close> iterations completes, and every iteration \<open>k\<close> in \<open>0 .. n_iterations-1\<close>
  updates the parameter vector by exactly the closed-form step: the loop reaches iteration
  \<open>k\<close> with \<open>theta = theta_k\<close>, the iteration completes, and it leaves
  \<open>theta = theta_k - \<gamma> (2/N) X\<^sup>T (X theta_k - y)\<close>, written entry by entry in \<open>spec_step\<close>; the
  run returns \<open>theta_n\<close>. For \<open>X = [[1,0],[1,1],[1,2]]\<close>, \<open>y = [1,2,3]\<close>, \<open>theta0 = [0,0]\<close>,
  \<open>\<gamma> = 0.1\<close> one iteration gives \<open>[2/5, 8/15]\<close>, the value of the formula.
\<close>

theorem every_iteration_is_closed_form_step:
  assumes "valid_shapes X Y t0" and "2 \<le> length t0"
  shows "(\<exists>ev. run X Y t0 g (int n) = Inr (theta_k X Y g t0 n, ev)) \<and>
         (\<forall>k<n. \<exists>ek ek'.
            for_loop [0..<k] (initial_env X Y t0 g (int n) (replicate 2 (replicate n 1)))
              = Inr ek \<and>
            theta ek = theta_k X Y g t0 k \<and>
            loop_body k ek = Inr ek' \<and>
            theta ek' = spec_step X Y g (theta ek))"
proof (intro conjI allI impI)
  show "\<exists>ev. run X Y t0 g (int n) = Inr (theta_k X Y g t0 n, ev)"
    using run_valid [OF assms, of g n] by blast
next
  fix k
  assume k: "k < n"
  have ones: "np_ones 2 (int n) = Inr (replicate 2 (replicate n 1))"
    by (simp add: np_ones_def)
  have e0: "initial_env X Y t0 g (int n) (replicate 2 (replicate n 1)) = env_after X Y g t0 n 0"
    by (rule env_after_0 [OF ones])
  have "for_loop [0..<k] (env_after X Y g t0 n 0) = Inr (env_after X Y g t0 n k)"
    using k by (intro for_loop_env_after [OF assms]) simp
  moreover have "theta (env_after X Y g t0 n k) = theta_k X Y g t0 k"
    by (simp add: env_after_def)
  moreover have "loop_body k (env_after X Y g t0 n k) = Inr (env_after X Y g t0 n (Suc k))"
    by (rule loop_body_env_after [OF assms k])
  moreover have "theta (env_after X Y g t0 n (Suc k))
      = spec_step X Y g (theta (env_after X Y g t0 n k))"
    by (simp add: env_after_def)
  ultimately show "\<exists>ek ek'.
            for_loop [0..<k] (initial_env X Y t0 g (int n) (replicate 2 (replicate n 1)))
              = Inr ek \<and>
            theta ek = theta_k X Y g t0 k \<and>
            loop_body k ek = Inr ek' \<and>
            theta ek' = spec_step X Y g (theta ek)"
    unfolding e0 by blast
qed

theorem every_iteration_is_closed_form_step_witness:
  "(\<exists>ev. run [[1,0],[1,1],[1,2]] [1,2,3] [0,0] (1/10) 1 = Inr ([2/5, 8/15], ev)) \<and>
   (\<exists>ek'. loop_body 0 (initial_env [[1,0],[1,1],[1,2]] [1,2,3] [0,0] (1/10) 1 [[1],[1]])
            = Inr ek' \<and>
          theta ek' = [2/5, 8/15])"
proof -
  have p: "2 \<le> length [0, 0::real]"
    by simp
  note inst = every_iteration_is_closed_form_step [OF example_valid p, of "1/10" 1]
  from inst have "\<exists>ev. run [[1,0],[1,1],[1,2]] [1,2,3] [0,0] (1/10) 1 = Inr ([2/5, 8/15], ev)"
    by (simp add: example_step)
  moreover from inst obtain ek ek' where
    "for_loop [0..<0] (initial_env [[1,0],[1,1],[1,2]] [1,2,3] [0,0] (1/10) (int 1)
        (replicate 2 (replicate 1 1))) = Inr ek"
    "theta ek = theta_k [[1,0],[1,1],[1,2]] [1,2,3] (1/10) [0,0] 0"
    "loop_body 0 ek = Inr ek'"
    "theta ek' = spec_step [[1,0],[1,1],[1,2]] [1,2,3] (1/10) (theta ek)"
    by auto
  then have "loop_body 0 (initial_env [[1,0],[1,1],[1,2]] [1,2,3] [0,0] (1/10) 1 [[1],[1]])
      = Inr ek' \<and> theta ek' = [2/5, 8/15]"
    by (auto simp: numeral_2_eq_2 example_step)
  ultimately show ?thesis
    by blast
qed

text \<open>
  C2, as stated: the trajectory entry at index \<open>k\<close> is the parameter vector before the
  update of iteration \<open>k\<close>, so \<open>trajectory[0] = theta0\<close>. This fails when \<open>theta\<close> has more
  than two entries: \<open>theta_ev\<close> has two rows and the loop stores \<open>theta[0]\<close> and \<open>theta[1]\<close>
  only. With four data points, three parameters and \<open>theta0 = [0,0,5]\<close> the run of one
  iteration completes and the entry 0 of the trajectory is \<open>[0,0]\<close>.
\<close>

theorem trajectory_entry_is_theta_counterexample:
  "valid_shapes [[1,0,0],[1,1,0],[1,0,1],[1,1,1]] [1,2,3,4] [0,0,5] \<and>
   run [[1,0,0],[1,1,0],[1,0,1],[1,1,1]] [1,2,3,4] [0,0,5] (1/10) 1
     = Inr ([0, 1/20, 97/20], [[0],[0]]) \<and>
   trajectory [[0],[0]] ! 0 = [0,0] \<and> [0,0] \<noteq> [0,0,5::real]"
  by (simp add: valid_shapes_def run_def np_ones_def and_then_def gradient_descent_def
      py_range_def initial_env_def loop_body_def exec_def record_theta_def getitem_def
      itemset_def update_theta_def gradients_def true_div_def dot_def np_T_def ncols_def
      np_sub_def np_smul_def trajectory_def numeral_2_eq_2)

text \<open>
  C2, amended. For valid shapes with at least two parameters and \<open>n_iterations \<ge> 1\<close> the
  run completes; the trajectory has \<open>n_iterations\<close> entries; entry \<open>k\<close> holds the first two
  components of \<open>theta_k\<close>, the parameter vector as it is before the update of iteration
  \<open>k\<close> (so entry 0 holds those of \<open>theta0\<close>); with exactly two parameters the entry is
  \<open>theta_k\<close> itself. The returned vector is one gradient step ahead of the vector whose
  snapshot is the last entry. \<open>theta_k\<close> is the vector a run of \<open>k\<close> iterations returns.
\<close>

theorem trajectory_holds_theta_before_update:
  assumes "valid_shapes X Y t0" and "2 \<le> length t0" and "1 \<le> n"
  shows "\<exists>ev. run X Y t0 g (int n) = Inr (spec_step X Y g (theta_k X Y g t0 (n - 1)), ev) \<and>
           length (trajectory ev) = n \<and>
           (\<forall>k<n. trajectory ev ! k = take 2 (theta_k X Y g t0 k)) \<and>
           (length t0 = 2 \<longrightarrow> (\<forall>k<n. trajectory ev ! k = theta_k X Y g t0 k)) \<and>
           (\<forall>k\<le>n. \<exists>evk. run X Y t0 g (int k) = Inr (theta_k X Y g t0 k, evk))"
proof -
  from run_trajectory [OF assms(1,2), of g n] obtain ev where
    r: "run X Y t0 g (int n) = Inr (theta_k X Y g t0 n, ev)"
    and l: "length (trajectory ev) = n"
    and t: "\<forall>k<n. trajectory ev ! k = take 2 (theta_k X Y g t0 k)"
    by blast
  from assms(3) have n: "n = Suc (n - 1)"
    by simp
  have "theta_k X Y g t0 n = spec_step X Y g (theta_k X Y g t0 (n - 1))"
    by (subst n) simp
  with r have r': "run X Y t0 g (int n) = Inr (spec_step X Y g (theta_k X Y g t0 (n - 1)), ev)"
    by simp
  have whole: "length t0 = 2 \<longrightarrow> (\<forall>k<n. trajectory ev ! k = theta_k X Y g t0 k)"
    using t by simp
  have runs: "\<forall>k\<le>n. \<exists>evk. run X Y t0 g (int k) = Inr (theta_k X Y g t0 k, evk)"
    using run_trajectory [OF assms(1,2), of g] by blast
  from r' l t whole runs show ?thesis
    by blast
qed

theorem trajectory_holds_theta_before_update_witness:
  "\<exists>ev. run [[1,0],[1,1],[1,2]] [1,2,3] [0,0] (1/10) 2 = Inr ([46/75, 182/225], ev) \<and>
      length (trajectory ev) = 2 \<and>
      trajectory ev ! 0 = [0,0] \<and> trajectory ev ! 1 = [2/5, 8/15]"
proof -
  have k1: "theta_k [[1,0],[1,1],[1,2]] [1,2,3] (1/10) [0,0] (Suc 0) = [2/5, 8/15]"
    by (simp add: example_step)
  have p: "2 \<le> length [0, 0::real]" and n: "1 \<le> (2::nat)"
    by simp_all
  from trajectory_holds_theta_before_update [OF example_valid p n, of "1/10"]
  obtain ev where
    "run [[1,0],[1,1],[1,2]] [1,2,3] [0,0] (1/10) (int 2)
       = Inr (spec_step [[1,0],[1,1],[1,2]] [1,2,3] (1/10)
                (theta_k [[1,0],[1,1],[1,2]] [1,2,3] (1/10) [0,0] (2 - 1)), ev)"
    "length (trajectory ev) = 2"
    "\<forall>k<2. trajectory ev ! k = theta_k [[1,0],[1,1],[1,2]] [1,2,3] (1/10) [0,0] k"
    by auto
  then have "run [[1,0],[1,1],[1,2]] [1,2,3] [0,0] (1/10) 2 = Inr ([46/75, 182/225], ev) \<and>
      length (trajectory ev) = 2 \<and>
      trajectory ev ! 0 = [0,0] \<and> trajectory ev ! 1 = [2/5, 8/15]"
    using k1 by (simp add: example_step2)
  then show ?thesis ..
qed

text \<open>
  C3, as stated: for all valid inputs with \<open>N \<ge> 1\<close> and \<open>p \<ge> 1\<close> the trajectory has
  \<open>n_iterations\<close> snapshots and the returned vector has length \<open>p\<close>. This fails for
  \<open>p = 1\<close>: the second \<open>itemset\<close> of the first iteration reads \<open>theta[1]\<close>, which raises
  \<^verbatim>\<open>IndexError\<close>, so the run returns nothing.
\<close>

theorem shape_of_results_counterexample:
  "valid_shapes [[1],[1]] [1,2] [0] \<and> run [[1],[1]] [1,2] [0] (1/10) 1 = Inl IndexError"
  by (simp add: valid_shapes_def run_one_parameter)

text \<open>
  C3, amended. For all valid inputs with at least two parameters, and for all valid inputs
  when \<open>n_iterations = 0\<close>, the run completes, the trajectory has exactly \<open>n_iterations\<close>
  snapshots and the returned vector has the length of \<open>theta0\<close>.
\<close>

theorem shape_of_results:
  assumes "valid_shapes X Y t0" and "2 \<le> length t0 \<or> n = 0"
  shows "\<exists>tf ev. run X Y t0 g (int n) = Inr (tf, ev) \<and>
           length (trajectory ev) = n \<and> length tf = length t0"
proof (cases "n = 0")
  case True
  then show ?thesis
    by (simp add: run_no_iterations trajectory_empty)
next
  case False
  with assms(2) have p: "2 \<le> length t0"
    by simp
  from run_trajectory [OF assms(1) p, of g n] obtain ev where
    "run X Y t0 g (int n) = Inr (theta_k X Y g t0 n, ev)" "length (trajectory ev) = n"
    by blast
  then show ?thesis
    by simp
qed

theorem shape_of_results_witness:
  "\<exists>tf ev. run [[1,0],[1,1],[1,2]] [1,2,3] [0,0] (1/10) 3 = Inr (tf, ev) \<and>
      length (trajectory ev) = 3 \<and> length tf = 2"
proof -
  have p: "2 \<le> length [0, 0::real] \<or> (3::nat) = 0"
    by simp
  from shape_of_results [OF example_valid p, of "1/10"] show ?thesis
    by (simp add: numeral_2_eq_2)
qed

text \<open>
  C5, as stated: a call whose shapes do not fit fails with a dimension error before any
  iteration or partial computation. The cell checks no shape. With \<open>X\<close> of three columns
  and \<open>theta0\<close> of length two the run of zero iterations returns normally; the run of one
  iteration does raise, but inside the iteration, when \<open>theta_ev\<close> has already been
  written: its column 0 holds the snapshot \<open>[0,0]\<close> instead of the ones of \<^verbatim>\<open>np.ones\<close>.
\<close>

theorem shape_mismatch_counterexample:
  "ncols [[1,0,0],[1,1,0],[1,0,1],[1,1,1]] = 3 \<and> length [0, 0::real] = 2 \<and>
   run [[1,0,0],[1,1,0],[1,0,1],[1,1,1]] [1,2,3,4] [0,0] (1/10) 0 = Inr ([0,0], [[],[]]) \<and>
   gradient_descent
     (initial_env [[1,0,0],[1,1,0],[1,0,1],[1,1,1]] [1,2,3,4] [0,0] (1/10) 1 [[1],[1]])
     = Inl (ValueError ShapesNotAligned,
            initial_env [[1,0,0],[1,1,0],[1,0,1],[1,1,1]] [1,2,3,4] [0,0] (1/10) 1 [[0],[0]])"
  by (simp add: run_no_iterations ncols_def gradient_descent_def
      py_range_def initial_env_def loop_body_def exec_def record_theta_def getitem_def
      itemset_def update_theta_def gradients_def true_div_def dot_def and_then_def)

text \<open>
  C5, amended. Nothing is checked before the loop: with \<open>n_iterations = 0\<close> the run returns
  \<open>theta0\<close> whatever the shapes. With \<open>n_iterations \<ge> 1\<close>, at least one row in \<open>X\<close> and at
  least two entries in \<open>theta0\<close>, the run fails with numpy's \<^verbatim>\<open>ValueError\<close> when the
  column count of \<open>X\<close> differs from the length of \<open>theta0\<close> (shapes not aligned), and when
  the row count of \<open>X\<close> differs from the length of \<open>y\<close> and \<open>y\<close> has not exactly one entry
  (operands could not be broadcast; shapes not aligned when \<open>X\<close> has one row). The
  exception is raised inside iteration 0, after the snapshot of \<open>theta0\<close> has been written
  into column 0 of \<open>theta_ev\<close>. A \<open>y\<close> of one entry is broadcast instead: the run with
  \<open>y = [c]\<close> gives what the run gives with \<open>c\<close> repeated once for every row of \<open>X\<close>.
\<close>

theorem shape_mismatch_raises_inside_first_iteration:
  assumes "1 \<le> n" and "X \<noteq> []" and "2 \<le> length t0"
    and "ncols X \<noteq> length t0 \<or> (length Y \<noteq> length X \<and> length Y \<noteq> 1)"
  shows "run X Y t0 g 0 = Inr (t0, [[], []]) \<and>
         run X Y t0 g n
           = Inl (ValueError (if ncols X = length t0 \<and> length X \<noteq> 1
                              then CannotBroadcast else ShapesNotAligned)) \<and>
         gradient_descent (initial_env X Y t0 g n (replicate 2 (replicate (nat n) 1)))
           = Inl (ValueError (if ncols X = length t0 \<and> length X \<noteq> 1
                              then CannotBroadcast else ShapesNotAligned),
                  initial_env X Y t0 g n
                    [(replicate (nat n) 1)[0 := t0 ! 0], (replicate (nat n) 1)[0 := t0 ! 1]]) \<and>
         run X [c] t0 g n = run X (replicate (length X) c) t0 g n"
  using run_no_iterations [of X Y t0 g] run_mismatch [OF assms, of g]
    gradient_descent_mismatch [OF assms, of g] run_one_entry_y [of X c t0 g n]
  by simp

theorem shape_mismatch_raises_inside_first_iteration_witness:
  "run [[1,0,0],[1,1,0],[1,0,1],[1,1,1]] [1,2,3,4] [0,0] (1/10) 0 = Inr ([0,0], [[],[]]) \<and>
   run [[1,0,0],[1,1,0],[1,0,1],[1,1,1]] [1,2,3,4] [0,0] (1/10) 2
     = Inl (ValueError ShapesNotAligned) \<and>
   gradient_descent
     (initial_env [[1,0,0],[1,1,0],[1,0,1],[1,1,1]] [1,2,3,4] [0,0] (1/10) 2 [[1,1],[1,1]])
     = Inl (ValueError ShapesNotAligned,
            initial_env [[1,0,0],[1,1,0],[1,0,1],[1,1,1]] [1,2,3,4] [0,0] (1/10) 2
              [[0,1],[0,1]]) \<and>
   run [[1,0],[1,1],[1,2]] [1,2] [0,0] (1/10) 1 = Inl (ValueError CannotBroadcast) \<and>
   gradient_descent (initial_env [[1,0],[1,1],[1,2]] [1,2] [0,0] (1/10) 1 [[1],[1]])
     = Inl (ValueError CannotBroadcast,
            initial_env [[1,0],[1,1],[1,2]] [1,2] [0,0] (1/10) 1 [[0],[0]]) \<and>
   run [[1,0],[1,1],[1,2]] [1] [0,0] (1/10) 1 = Inr ([1/5, 1/5], [[0],[0]])"
proof -
  have n: "1 \<le> (2::int)" and ne: "[[1,0,0],[1,1,0],[1,0,1],[1,1,1]] \<noteq> ([]::matrix)"
    and p: "2 \<le> length [0, 0::real]"
    and bad: "ncols [[1,0,0],[1,1,0],[1,0,1],[1,1,1]] \<noteq> length [0, 0::real] \<or>
              (length [1,2,3,4::real] \<noteq> length [[1,0,0],[1,1,0],[1,0,1],[1,1,1::real]] \<and>
               length [1,2,3,4::real] \<noteq> 1)"
    by (simp_all add: ncols_def)
  have n': "1 \<le> (1::int)" and ne': "[[1,0],[1,1],[1,2]] \<noteq> ([]::matrix)"
    and bad': "ncols [[1,0],[1,1],[1,2]] \<noteq> length [0, 0::real] \<or>
              (length [1,2::real] \<noteq> length [[1,0],[1,1],[1,2::real]] \<and>
               length [1,2::real] \<noteq> 1)"
    by (simp_all add: ncols_def)
  have v: "valid_shapes [[1,0],[1,1],[1,2]] [1,1,1] [0,0]"
    by (simp add: valid_shapes_def)
  have "run [[1,0],[1,1],[1,2]] [1,1,1] [0,0] (1/10) (int 1)
      = Inr (theta_k [[1,0],[1,1],[1,2]] [1,1,1] (1/10) [0,0] 1,
             theta_ev_after [[1,0],[1,1],[1,2]] [1,1,1] (1/10) [0,0] 1 1)"
    by (rule run_valid [OF v]) simp
  then have r: "run [[1,0],[1,1],[1,2]] [1,1,1] [0,0] (1/10) 1 = Inr ([1/5, 1/5], [[0],[0]])"
    by (simp add: example_step_constant_target theta_ev_after_def row_after_def)
  from shape_mismatch_raises_inside_first_iteration [OF n ne p bad, of "1/10" 1]
    shape_mismatch_raises_inside_first_iteration [OF n' ne' p bad', of "1/10" 1] r
  show ?thesis
    by (simp add: ncols_def numeral_2_eq_2 numeral_3_eq_3)
qed

text \<open>
  C10, as stated: no check on \<open>gamma\<close>, and with \<open>gamma = 0\<close> every trajectory snapshot
  equals \<open>theta0\<close>. The second part fails when \<open>theta0\<close> has more than two entries, for the
  reason of C2: the snapshot holds \<open>theta[0]\<close> and \<open>theta[1]\<close> only.
\<close>

theorem zero_step_size_counterexample:
  "valid_shapes [[1,0,0],[1,1,0],[1,0,1],[1,1,1]] [1,2,3,4] [0,0,5] \<and>
   run [[1,0,0],[1,1,0],[1,0,1],[1,1,1]] [1,2,3,4] [0,0,5] 0 1 = Inr ([0,0,5], [[0],[0]]) \<and>
   trajectory [[0],[0]] ! 0 = [0,0] \<and> [0,0] \<noteq> [0,0,5::real]"
  by (simp add: valid_shapes_def run_def np_ones_def and_then_def gradient_descent_def
      py_range_def initial_env_def loop_body_def exec_def record_theta_def getitem_def
      itemset_def update_theta_def gradients_def true_div_def dot_def np_T_def ncols_def
      np_sub_def np_smul_def trajectory_def numeral_2_eq_2)

text \<open>
  C10, amended. The run checks nothing about \<open>gamma\<close>: for valid shapes with at least two
  parameters (or with \<open>n_iterations = 0\<close>) it completes for every \<open>gamma\<close>, positive or
  not. With \<open>gamma = 0\<close>, and as long as the gradients that are computed are finite numbers
  (no overflow to infinity and no NaN, which the numbers of the model exclude), it returns
  \<open>theta0\<close>, and every trajectory snapshot holds the first two components of \<open>theta0\<close>,
  which is \<open>theta0\<close> itself when there are exactly two parameters: the update
  \<open>theta - 0 * gradients\<close> gives back \<open>theta\<close> whatever finite gradients are subtracted.
\<close>

theorem zero_step_size_is_identity:
  assumes "valid_shapes X Y t0" and "2 \<le> length t0 \<or> n = 0"
  shows "(\<forall>g. \<exists>tf ev. run X Y t0 g (int n) = Inr (tf, ev)) \<and>
         (\<exists>ev. run X Y t0 0 (int n) = Inr (t0, ev) \<and>
            length (trajectory ev) = n \<and>
            (\<forall>k<n. trajectory ev ! k = take 2 t0) \<and>
            (length t0 = 2 \<longrightarrow> (\<forall>k<n. trajectory ev ! k = t0))) \<and>
         (\<forall>gr. length gr = length t0 \<longrightarrow> np_sub t0 (np_smul 0 gr) = Inr t0)"
proof -
  have upd: "\<forall>gr. length gr = length t0 \<longrightarrow> np_sub t0 (np_smul 0 gr) = Inr t0"
  proof (intro allI impI)
    fix gr :: vec
    assume l: "length gr = length t0"
    have "map2 (-) t0 (map (\<lambda>a. 0 * a) gr) = t0"
      by (rule nth_equalityI) (simp_all add: l)
    then show "np_sub t0 (np_smul 0 gr) = Inr t0"
      by (simp add: np_sub_def np_smul_def l)
  qed
  show ?thesis
  proof (cases "n = 0")
    case True
    with upd show ?thesis
      by (simp add: run_no_iterations trajectory_empty)
  next
    case False
    with assms(2) have p: "2 \<le> length t0"
      by simp
    have any: "\<forall>g. \<exists>tf ev. run X Y t0 g (int n) = Inr (tf, ev)"
      using run_trajectory [OF assms(1) p] by blast
    from run_trajectory [OF assms(1) p, of 0 n] obtain ev where
      r: "run X Y t0 0 (int n) = Inr (t0, ev)" and l: "length (trajectory ev) = n"
      and t: "\<forall>k<n. trajectory ev ! k = take 2 t0"
      by (auto simp: theta_k_zero)
    from t have "length t0 = 2 \<longrightarrow> (\<forall>k<n. trajectory ev ! k = t0)"
      by simp
    with any r l t upd show ?thesis
      by blast
  qed
qed

theorem zero_step_size_is_identity_witness:
  "(\<exists>tf ev. run [[1,0],[1,1],[1,2]] [1,2,3] [3,4] (-1) 2 = Inr (tf, ev)) \<and>
   (\<exists>ev. run [[1,0],[1,1],[1,2]] [1,2,3] [3,4] 0 2 = Inr ([3,4], ev) \<and>
      length (trajectory ev) = 2 \<and> trajectory ev ! 0 = [3,4] \<and> trajectory ev ! 1 = [3,4]) \<and>
   np_sub [3,4] (np_smul 0 [7,-2]) = Inr [3,4]"
proof -
  have v: "valid_shapes [[1,0],[1,1],[1,2]] [1,2,3] [3,4]"
    by (simp add: valid_shapes_def)
  have p: "2 \<le> length [3, 4::real] \<or> (2::nat) = 0"
    by simp
  from zero_step_size_is_identity [OF v p] show ?thesis
    by (auto simp: numeral_2_eq_2 less_Suc_eq)
qed

end
